theory Spec2Isabelle
  imports Complex_Main
begin

section \<open>JavaScript numbers\<close>

text \<open>
  The source computes with JavaScript numbers, the IEEE 754 doubles. They are modelled
  as the real numbers extended by the three non-finite values. A finite number is read
  as the real it denotes. Overflow is modelled: a result whose magnitude reaches
  \<open>2^1024 - 2^970\<close>, the least magnitude that rounds to an infinity, is the infinity
  of its sign. Below that bound the arithmetic is exact: the rounding of the significand,
  underflow and the sign of zero are not modelled (zero is read as \<open>+0\<close>), so a
  statement of this file holds of the code only where it does not depend on them. The
  non-finite cases follow ECMAScript: \<open>0/0\<close>, \<open>Infinity - Infinity\<close>, \<open>0 * Infinity\<close>
  and every operation on \<open>NaN\<close> give \<open>NaN\<close>.
\<close>

datatype jsnum = Fin real | PInf | NInf | NaN

fun jneg :: "jsnum \<Rightarrow> jsnum" where
  "jneg (Fin a) = Fin (- a)"
| "jneg PInf = NInf"
| "jneg NInf = PInf"
| "jneg NaN = NaN"

text \<open>The result of an arithmetic operation on finite numbers, with overflow.\<close>

definition overflow_bound :: real where
  "overflow_bound = 2 ^ 1024 - 2 ^ 970"

definition ovf :: "real \<Rightarrow> jsnum" where
  "ovf c = (if \<bar>c\<bar> < overflow_bound then Fin c else if 0 < c then PInf else NInf)"

fun jadd :: "jsnum \<Rightarrow> jsnum \<Rightarrow> jsnum" where
  "jadd (Fin a) (Fin b) = ovf (a + b)"
| "jadd NaN _ = NaN"
| "jadd _ NaN = NaN"
| "jadd PInf NInf = NaN"
| "jadd NInf PInf = NaN"
| "jadd PInf _ = PInf"
| "jadd _ PInf = PInf"
| "jadd NInf _ = NInf"
| "jadd _ NInf = NInf"

definition jsub :: "jsnum \<Rightarrow> jsnum \<Rightarrow> jsnum" where
  "jsub a b = jadd a (jneg b)"

fun jmul :: "jsnum \<Rightarrow> jsnum \<Rightarrow> jsnum" where
  "jmul (Fin a) (Fin b) = ovf (a * b)"
| "jmul NaN _ = NaN"
| "jmul _ NaN = NaN"
| "jmul PInf (Fin b) = (if b = 0 then NaN else if 0 < b then PInf else NInf)"
| "jmul NInf (Fin b) = (if b = 0 then NaN else if 0 < b then NInf else PInf)"
| "jmul (Fin a) PInf = (if a = 0 then NaN else if 0 < a then PInf else NInf)"
| "jmul (Fin a) NInf = (if a = 0 then NaN else if 0 < a then NInf else PInf)"
| "jmul PInf PInf = PInf"
| "jmul PInf NInf = NInf"
| "jmul NInf PInf = NInf"
| "jmul NInf NInf = PInf"

fun jdiv :: "jsnum \<Rightarrow> jsnum \<Rightarrow> jsnum" where
  "jdiv (Fin a) (Fin b) =
     (if b = 0 then (if a = 0 then NaN else if 0 < a then PInf else NInf)
      else ovf (a / b))"
| "jdiv NaN _ = NaN"
| "jdiv _ NaN = NaN"
| "jdiv (Fin a) PInf = Fin 0"
| "jdiv (Fin a) NInf = Fin 0"
| "jdiv PInf (Fin b) = (if 0 \<le> b then PInf else NInf)"
| "jdiv NInf (Fin b) = (if 0 \<le> b then NInf else PInf)"
| "jdiv PInf PInf = NaN"
| "jdiv PInf NInf = NaN"
| "jdiv NInf PInf = NaN"
| "jdiv NInf NInf = NaN"

text \<open>The remainder operator \<open>%\<close>: the result takes the sign of the dividend.\<close>

definition trunc :: "real \<Rightarrow> int" where
  "trunc q = (if 0 \<le> q then \<lfloor>q\<rfloor> else \<lceil>q\<rceil>)"

fun jmod :: "jsnum \<Rightarrow> jsnum \<Rightarrow> jsnum" where
  "jmod (Fin a) (Fin b) = (if b = 0 then NaN else Fin (a - b * of_int (trunc (a / b))))"
| "jmod NaN _ = NaN"
| "jmod _ NaN = NaN"
| "jmod PInf _ = NaN"
| "jmod NInf _ = NaN"
| "jmod (Fin a) _ = Fin a"

text \<open>The comparisons \<open><\<close> and \<open>==\<close> on numbers; both are false on \<open>NaN\<close>.\<close>

fun jlt :: "jsnum \<Rightarrow> jsnum \<Rightarrow> bool" where
  "jlt (Fin a) (Fin b) = (a < b)"
| "jlt NaN _ = False"
| "jlt _ NaN = False"
| "jlt NInf NInf = False"
| "jlt NInf _ = True"
| "jlt _ NInf = False"
| "jlt PInf _ = False"
| "jlt _ PInf = True"

definition jeq :: "jsnum \<Rightarrow> jsnum \<Rightarrow> bool" where
  "jeq a b = (a \<noteq> NaN \<and> b \<noteq> NaN \<and> a = b)"

text \<open>Truthiness of a number in a condition: zero and \<open>NaN\<close> are falsy.\<close>

fun truthy :: "jsnum \<Rightarrow> bool" where
  "truthy (Fin a) = (a \<noteq> 0)"
| "truthy NaN = False"
| "truthy PInf = True"
| "truthy NInf = True"

subsection \<open>The \<open>Math\<close> built-ins the source calls\<close>

text \<open>
  \<open>Math.sin\<close>, \<open>Math.cos\<close> and \<open>Math.atan2\<close> are read as the functions they
  approximate and \<open>Math.PI\<close> as \<open>\<pi>\<close>. The host's functions differ from them by a
  rounding error (\<open>Math.sin(Math.PI)\<close> is \<open>1.22e-16\<close>, not 0). The theorems on all
  inputs below rest on what holds of both: the range of \<open>atan2\<close>, the bounds \<open>-1\<close>
  and \<open>1\<close> of a sine and a cosine, \<open>atan2(0, 0) = 0\<close>, the commutativity of the
  arithmetic, and \<open>NaN\<close> from a non-finite argument. An exact value of a sine or a
  cosine is used at single inputs only, where the rounding does not decide the claim.
\<close>

fun jsin :: "jsnum \<Rightarrow> jsnum" where
  "jsin (Fin a) = Fin (sin a)"
| "jsin _ = NaN"

fun jcos :: "jsnum \<Rightarrow> jsnum" where
  "jcos (Fin a) = Fin (cos a)"
| "jcos _ = NaN"

fun jsqrt :: "jsnum \<Rightarrow> jsnum" where
  "jsqrt (Fin a) = (if a < 0 then NaN else Fin (sqrt a))"
| "jsqrt PInf = PInf"
| "jsqrt NInf = NaN"
| "jsqrt NaN = NaN"

text \<open>
  \<open>Math.atan2(y, x)\<close> on finite arguments: the angle of the point \<open>(x, y)\<close> in
  \<open>(-\<pi>, \<pi>]\<close>, and \<open>0\<close> at the origin.
\<close>

definition atan2 :: "real \<Rightarrow> real \<Rightarrow> real" where
  "atan2 b a =
     (if 0 < a then arctan (b / a)
      else if a < 0 then (if 0 \<le> b then arctan (b / a) + pi else arctan (b / a) - pi)
      else if 0 < b then pi / 2
      else if b < 0 then - (pi / 2)
      else 0)"

fun jatan2 :: "jsnum \<Rightarrow> jsnum \<Rightarrow> jsnum" where
  "jatan2 (Fin b) (Fin a) = Fin (atan2 b a)"
| "jatan2 NaN _ = NaN"
| "jatan2 _ NaN = NaN"
| "jatan2 PInf PInf = Fin (pi / 4)"
| "jatan2 PInf NInf = Fin (3 * pi / 4)"
| "jatan2 PInf (Fin a) = Fin (pi / 2)"
| "jatan2 NInf PInf = Fin (- (pi / 4))"
| "jatan2 NInf NInf = Fin (- (3 * pi / 4))"
| "jatan2 NInf (Fin a) = Fin (- (pi / 2))"
| "jatan2 (Fin b) PInf = Fin 0"
| "jatan2 (Fin b) NInf = (if 0 \<le> b then Fin pi else Fin (- pi))"

text \<open>
  \<open>Math.sign\<close>, as the source defines it when the host has none (source line 310):
  \<open>x ? (x < 0 ? -1 : 1) : (x === x ? 0 : NaN)\<close>.
\<close>

definition sign :: "jsnum \<Rightarrow> jsnum" where
  "sign a =
     (if truthy a then (if jlt a (Fin 0) then Fin (- 1) else Fin 1)
      else if jeq a a then Fin 0 else NaN)"

text \<open>\<open>Number.prototype.toRadians\<close> and \<open>toDegrees\<close> (source lines 299 and 304).\<close>

definition toRadians :: "jsnum \<Rightarrow> jsnum" where
  "toRadians a = jdiv (jmul a (Fin pi)) (Fin 180)"

definition toDegrees :: "jsnum \<Rightarrow> jsnum" where
  "toDegrees a = jdiv (jmul a (Fin 180)) (Fin pi)"

section \<open>Vector3d\<close>

text \<open>
  The class \<open>Vector3d\<close> is required by the source file (\<open>@requires Vector3d\<close>) but
  defined outside it: the source only adds \<open>toLatLon\<close> to its prototype. Its
  constructor and the methods the source calls are taken from section 4.1 of the
  specification, computed with the numbers above.
\<close>

text \<open>
  Modelled from the spec: the constructor of \<open>Vector3d\<close>, missing from the source. A
  vector is a value \<open>{x, y, z}\<close>; no invariant on its length is enforced.
\<close>

datatype Vector3d = Vector3d (vx: jsnum) (vy: jsnum) (vz: jsnum)

text \<open>
  Modelled from the spec: \<open>Vector3d.prototype.plus\<close>, missing from the source:
  the component-wise sum.
\<close>

definition plus_v :: "Vector3d \<Rightarrow> Vector3d \<Rightarrow> Vector3d" where
  "plus_v a b = Vector3d (jadd (vx a) (vx b)) (jadd (vy a) (vy b)) (jadd (vz a) (vz b))"

text \<open>
  Modelled from the spec: \<open>Vector3d.prototype.times\<close>, missing from the source:
  the scalar multiple.
\<close>

definition times_v :: "Vector3d \<Rightarrow> jsnum \<Rightarrow> Vector3d" where
  "times_v a k = Vector3d (jmul (vx a) k) (jmul (vy a) k) (jmul (vz a) k)"

text \<open>
  Modelled from the spec: \<open>Vector3d.prototype.dot\<close>, missing from the source:
  \<open>dot(a,b) = ax*bx+ay*by+az*bz\<close>.
\<close>

definition dot :: "Vector3d \<Rightarrow> Vector3d \<Rightarrow> jsnum" where
  "dot a b = jadd (jadd (jmul (vx a) (vx b)) (jmul (vy a) (vy b))) (jmul (vz a) (vz b))"

text \<open>
  Modelled from the spec: \<open>Vector3d.prototype.cross\<close>, missing from the source:
  the standard cross product of two 3-vectors.
\<close>

definition cross :: "Vector3d \<Rightarrow> Vector3d \<Rightarrow> Vector3d" where
  "cross a b =
     Vector3d (jsub (jmul (vy a) (vz b)) (jmul (vz a) (vy b)))
              (jsub (jmul (vz a) (vx b)) (jmul (vx a) (vz b)))
              (jsub (jmul (vx a) (vy b)) (jmul (vy a) (vx b)))"

text \<open>
  Modelled from the spec: \<open>Vector3d.prototype.length\<close>, missing from the source:
  \<open>length(a) = sqrt(dot(a,a))\<close>.
\<close>

definition length_v :: "Vector3d \<Rightarrow> jsnum" where
  "length_v a = jsqrt (dot a a)"

text \<open>
  Modelled from the spec: \<open>Vector3d.prototype.unit\<close>, missing from the source:
  \<open>a\<close> divided by \<open>length(a)\<close>. For a vector of length 0 the specification gives
  no result (``fails/undefined when \<open>length(a) == 0\<close>'', the caller must guard): the
  value of the model is left unspecified there, so that no theorem says what the
  normalisation of the zero vector returns.
\<close>

definition unit :: "Vector3d \<Rightarrow> Vector3d" where
  "unit a =
     (if length_v a = Fin 0 then undefined
      else Vector3d (jdiv (vx a) (length_v a)) (jdiv (vy a) (length_v a))
             (jdiv (vz a) (length_v a)))"

text \<open>
  Modelled from the spec: \<open>Vector3d.prototype.angleTo\<close>, missing from the source:
  \<open>angleTo(a,b) = atan2(length(cross(a,b)), dot(a,b))\<close>.
\<close>

definition angleTo :: "Vector3d \<Rightarrow> Vector3d \<Rightarrow> jsnum" where
  "angleTo a b = jatan2 (length_v (cross a b)) (dot a b)"

section \<open>LatLonV\<close>

text \<open>
  A point object: the three fields the constructor sets (source lines 24 to 30). The
  constructor's third argument is optional; left out, the radius is 6371.
\<close>

record point =
  lat :: jsnum
  lon :: jsnum
  radius :: jsnum

definition LatLonV :: "jsnum \<Rightarrow> jsnum \<Rightarrow> jsnum option \<Rightarrow> point" where
  "LatLonV la lo r =
     \<lparr>lat = la, lon = lo, radius = (case r of None \<Rightarrow> Fin 6371 | Some r' \<Rightarrow> r')\<rparr>"

text \<open>
  The values that reach the parameters documented as \<open>LatLonV|number\<close>, and the local
  variables of \<open>enclosedBy\<close> that hold a point, an array index or \<open>undefined\<close>.
\<close>

datatype jsval = Undefined | NumV jsnum | PointV point

text \<open>
  The exceptions the source can raise: a read of an undeclared identifier, a call or a
  property read on \<open>undefined\<close>, and the \<open>Error\<close> thrown by \<open>enclosedBy\<close>.
\<close>

datatype error = ReferenceError | TypeError | Error string

text \<open>The \<open>typeof\<close> operator: an object is \<open>'object'\<close>, whatever its constructor.\<close>

fun typeof :: "jsval \<Rightarrow> string" where
  "typeof Undefined = ''undefined''"
| "typeof (NumV _) = ''number''"
| "typeof (PointV _) = ''object''"

text \<open>
  \<open>Number(v)\<close>. A point is converted through its \<open>toString\<close> (source line 288), whose
  result joins the two coordinates, formatted by the library \<open>Geo\<close>, with a comma and a
  space and so is not a numeric literal: the conversion gives \<open>NaN\<close>.
\<close>

fun Number :: "jsval \<Rightarrow> jsnum" where
  "Number Undefined = NaN"
| "Number (NumV n) = n"
| "Number (PointV _) = NaN"

subsection \<open>Conversions\<close>

definition toVector :: "point \<Rightarrow> Vector3d" where
  "toVector this =
     (let phi = toRadians (lat this);
          lam = toRadians (lon this)
      in Vector3d (jmul (jcos phi) (jcos lam)) (jmul (jcos phi) (jsin lam)) (jsin phi))"

definition toLatLon :: "Vector3d \<Rightarrow> point" where
  "toLatLon this =
     (let phi = jatan2 (vz this)
                 (jsqrt (jadd (jmul (vx this) (vx this)) (jmul (vy this) (vy this))));
          lam = jatan2 (vy this) (vx this)
      in LatLonV (toDegrees phi) (toDegrees lam) None)"

definition greatCircle :: "point \<Rightarrow> jsval \<Rightarrow> Vector3d" where
  "greatCircle this bearing =
     (let phi = toRadians (lat this);
          lam = toRadians (lon this);
          theta = toRadians (Number bearing)
      in Vector3d
           (jsub (jmul (jsin lam) (jcos theta)) (jmul (jmul (jsin phi) (jcos lam)) (jsin theta)))
           (jsub (jmul (jneg (jcos lam)) (jcos theta)) (jmul (jmul (jsin phi) (jsin lam)) (jsin theta)))
           (jmul (jcos phi) (jsin theta)))"

subsection \<open>Pairwise operations\<close>

definition distanceTo :: "point \<Rightarrow> point \<Rightarrow> jsnum" where
  "distanceTo this pt =
     (let p1 = toVector this;
          p2 = toVector pt;
          delta = angleTo p1 p2
      in jmul delta (radius this))"

definition bearingTo :: "point \<Rightarrow> point \<Rightarrow> jsnum" where
  "bearingTo this pt =
     (let p1 = toVector this;
          p2 = toVector pt;
          northPole = Vector3d (Fin 0) (Fin 0) (Fin 1);
          c1 = cross p1 p2;
          c2 = cross p1 northPole;
          sin_theta = length_v (cross c1 c2);
          cos_theta = dot c1 c2;
          sin_theta' = (if jlt (dot (cross c1 c2) p1) (Fin 0) then jneg sin_theta else sin_theta);
          bearing = toDegrees (jatan2 sin_theta' cos_theta)
      in jmod (jadd bearing (Fin 360)) (Fin 360))"

definition midpointTo :: "point \<Rightarrow> point \<Rightarrow> point" where
  "midpointTo this pt =
     (let p1 = toVector this;
          p2 = toVector pt;
          mid = unit (plus_v p1 p2)
      in toLatLon mid)"

definition destinationPoint :: "point \<Rightarrow> jsval \<Rightarrow> jsval \<Rightarrow> point" where
  "destinationPoint this bearing distance =
     (let delta = jdiv (Number distance) (radius this);
          c = greatCircle this bearing;
          p1 = toVector this;
          x = times_v p1 (jcos delta);
          y = times_v (cross c p1) (jsin delta);
          p2 = unit (plus_v x y)
      in toLatLon p2)"

subsection \<open>Composite operations\<close>

text \<open>
  \<open>LatLonV.prototype\<close> holds the methods the file assigns to it: \<open>toVector\<close>,
  \<open>greatCircle\<close>, \<open>distanceTo\<close>, \<open>bearingTo\<close>, \<open>midpointTo\<close>, \<open>destinationPoint\<close>,
  \<open>crossTrackDistanceTo\<close>, \<open>enclosedBy\<close>, \<open>equals\<close> and \<open>toString\<close>. It has no
  \<open>cross\<close>, \<open>plus\<close> or \<open>unit\<close>: on a point these properties are \<open>undefined\<close>, and
  calling \<open>undefined\<close> or reading a property of it raises \<open>TypeError\<close>.
\<close>

text \<open>The call \<open>p.cross(q)\<close> on a point \<open>p\<close> (source lines 180, 185 and 208).\<close>

definition LatLonV_cross :: "point \<Rightarrow> jsval \<Rightarrow> error + Vector3d" where
  "LatLonV_cross this v = Inl TypeError"

text \<open>The call \<open>m.plus(q)\<close> on a point \<open>m\<close> (source line 262).\<close>

definition LatLonV_plus :: "point \<Rightarrow> jsval \<Rightarrow> error + point" where
  "LatLonV_plus this v = Inl TypeError"

text \<open>The call \<open>m.unit()\<close> on a point \<open>m\<close> (source line 265).\<close>

definition LatLonV_unit :: "point \<Rightarrow> error + point" where
  "LatLonV_unit this = Inl TypeError"

text \<open>
  The call \<open>v.greatCircle(b)\<close> on a value \<open>v\<close>: only a point has the method.
\<close>

fun call_greatCircle :: "jsval \<Rightarrow> jsval \<Rightarrow> error + Vector3d" where
  "call_greatCircle (PointV s) b = Inr (greatCircle s b)"
| "call_greatCircle (NumV _) b = Inl TypeError"
| "call_greatCircle Undefined b = Inl TypeError"

text \<open>
  The expression \<open>p1.cross.p2\<close> (source lines 237 and 244): \<open>p1.cross\<close> is
  \<open>undefined\<close> on a point and on a number, and the read itself fails on \<open>undefined\<close>.
\<close>

fun cross_p2 :: "jsval \<Rightarrow> error + jsnum" where
  "cross_p2 (PointV _) = Inl TypeError"
| "cross_p2 (NumV _) = Inl TypeError"
| "cross_p2 Undefined = Inl TypeError"

definition intersection :: "point \<Rightarrow> jsval \<Rightarrow> point \<Rightarrow> jsval \<Rightarrow> error + point" where
  "intersection path1start path1brngEnd path2start path2brngEnd =
     (case (if typeof path1brngEnd = ''LatLonV''
            then LatLonV_cross path1start path1brngEnd
            else Inr (greatCircle path1start path1brngEnd)) of
        Inl e \<Rightarrow> Inl e
      | Inr c1 \<Rightarrow>
          (case (if typeof path2brngEnd = ''LatLonV''
                 then LatLonV_cross path2start path2brngEnd
                 else Inr (greatCircle path2start path2brngEnd)) of
             Inl e \<Rightarrow> Inl e
           | Inr c2 \<Rightarrow> Inr (toLatLon (cross c1 c2))))"

text \<open>
  \<open>crossTrackDistanceTo(pathStart, pathBrngEnd)\<close>. The condition reads
  \<open>typeof pathbrngEnd\<close>, an identifier that is declared nowhere (the parameter is
  \<open>pathBrngEnd\<close>): \<open>typeof\<close> of it is \<open>'undefined'\<close>, and the branch under the
  condition would raise \<open>ReferenceError\<close> at its first read of the identifier.
\<close>

definition crossTrackDistanceTo :: "point \<Rightarrow> jsval \<Rightarrow> jsval \<Rightarrow> error + jsnum" where
  "crossTrackDistanceTo this pathStart pathBrngEnd =
     (let p = toVector this
      in case (if typeof Undefined = ''LatLonV''
               then Inl ReferenceError
               else (let pathBrng = Number pathBrngEnd
                     in call_greatCircle pathStart (NumV pathBrng))) of
           Inl e \<Rightarrow> Inl e
         | Inr gc \<Rightarrow>
             (let alpha = jsub (jdiv (Fin pi) (Fin 2)) (angleTo p gc);
                  d = jmul alpha (radius this)
              in Inr d))"

text \<open>
  A property read \<open>v.lat\<close>, \<open>v.lon\<close> or \<open>v.radius\<close>: it raises \<open>TypeError\<close> on
  \<open>undefined\<close>, and is \<open>undefined\<close> (\<open>None\<close>) on a number, which has no such property.
\<close>

fun get_lat :: "jsval \<Rightarrow> error + jsnum option" where
  "get_lat (PointV q) = Inr (Some (lat q))"
| "get_lat (NumV _) = Inr None"
| "get_lat Undefined = Inl TypeError"

fun get_lon :: "jsval \<Rightarrow> error + jsnum option" where
  "get_lon (PointV q) = Inr (Some (lon q))"
| "get_lon (NumV _) = Inr None"
| "get_lon Undefined = Inl TypeError"

fun get_radius :: "jsval \<Rightarrow> error + jsnum option" where
  "get_radius (PointV q) = Inr (Some (radius q))"
| "get_radius (NumV _) = Inr None"
| "get_radius Undefined = Inl TypeError"

text \<open>The comparison \<open>==\<close> of a number with a property value: false on \<open>undefined\<close>.\<close>

fun loose_eq :: "jsnum \<Rightarrow> jsnum option \<Rightarrow> bool" where
  "loose_eq a (Some b) = jeq a b"
| "loose_eq a None = False"

text \<open>
  \<open>equals(point)\<close>. The condition is
  \<open>this.lat==points.lat && this.lon==point.lon && this.radius==point.radius\<close>. Its
  first comparison reads \<open>points\<close>, which is neither the parameter (\<open>point\<close>) nor
  declared anywhere in the file: the identifier is resolved in the global scope. The
  global binding is the parameter \<open>g\<close> of the model: \<open>None\<close> when no global variable
  of that name exists, as when the file is loaded with nothing but the libraries it
  requires; the read then raises \<open>ReferenceError\<close>. The operator \<open>&&\<close> evaluates its
  right operand only when the left one is true.
\<close>

definition equals :: "jsval option \<Rightarrow> point \<Rightarrow> jsval \<Rightarrow> error + bool" where
  "equals g this pt =
     (case g of
        None \<Rightarrow> Inl ReferenceError
      | Some points \<Rightarrow>
          (case get_lat points of
             Inl e \<Rightarrow> Inl e
           | Inr la \<Rightarrow>
               if \<not> loose_eq (lat this) la then Inr False
               else (case get_lon pt of
                       Inl e \<Rightarrow> Inl e
                     | Inr lo \<Rightarrow>
                         if \<not> loose_eq (lon this) lo then Inr False
                         else (case get_radius pt of
                                 Inl e \<Rightarrow> Inl e
                               | Inr r \<Rightarrow>
                                   if loose_eq (radius this) r then Inr True
                                   else Inr False))))"

text \<open>An array read \<open>points[i]\<close>: \<open>undefined\<close> out of range.\<close>

definition elem :: "point list \<Rightarrow> int \<Rightarrow> jsval" where
  "elem points i = (if 0 \<le> i \<and> i < int (length points) then PointV (points ! nat i) else Undefined)"

text \<open>The call \<open>v.equals(w)\<close> on an array element.\<close>

fun call_equals :: "jsval option \<Rightarrow> jsval \<Rightarrow> jsval \<Rightarrow> error + bool" where
  "call_equals g (PointV p) w = equals g p w"
| "call_equals g (NumV _) w = Inl TypeError"
| "call_equals g Undefined w = Inl TypeError"

definition jne :: "jsnum \<Rightarrow> jsnum \<Rightarrow> bool" where
  "jne a b = (\<not> jeq a b)"

text \<open>
  The loop of \<open>enclosedBy\<close> (source lines 240 to 245) over \<open>p = 1, ..., points.length - 1\<close>;
  \<open>p1\<close> and \<open>p2\<close> are assigned the numbers \<open>p - 1\<close> and \<open>p\<close>.
\<close>

fun enclosedBy_loop :: "point \<Rightarrow> jsnum \<Rightarrow> jsnum \<Rightarrow> nat list \<Rightarrow> error + bool" where
  "enclosedBy_loop this side turn [] = Inr True"
| "enclosedBy_loop this side turn (p # ps) =
     (let p1 = NumV (Fin (real p - 1));
          p2 = NumV (Fin (real p))
      in case crossTrackDistanceTo this p2 p2 of
           Inl e \<Rightarrow> Inl e
         | Inr d \<Rightarrow>
             if jne (sign d) side then Inr False
             else (case cross_p2 p1 of
                     Inl e \<Rightarrow> Inl e
                   | Inr t \<Rightarrow>
                       if jne (sign t) turn then Inl (Error ''Polygon must be convex'')
                       else enclosedBy_loop this side turn ps))"

text \<open>The statements of \<open>enclosedBy\<close> after its first line (source lines 232 to 247).\<close>

definition enclosedBy_body :: "point \<Rightarrow> point list \<Rightarrow> error + bool" where
  "enclosedBy_body this points =
     (let p1 = elem points (int (length points) - 1);
          p2 = elem points 0
      in case crossTrackDistanceTo this p2 p2 of
           Inl e \<Rightarrow> Inl e
         | Inr d \<Rightarrow>
             (let side = sign d
              in case cross_p2 p1 of
                   Inl e \<Rightarrow> Inl e
                 | Inr t \<Rightarrow>
                     (let turn = sign t
                      in enclosedBy_loop this side turn [1 ..< length points])))"

text \<open>
  \<open>enclosedBy(points)\<close> returns its outcome together with the array \<open>points\<close> as the
  call leaves it: the first line may remove the last element (\<open>points.pop()\<close>). The
  parameter \<open>g\<close> is the global binding that \<open>equals\<close> reads.
\<close>

definition enclosedBy ::
  "jsval option \<Rightarrow> point \<Rightarrow> point list \<Rightarrow> (error + bool) \<times> point list" where
  "enclosedBy g this points =
     (case call_equals g (elem points 0) (elem points (int (length points) - 1)) of
        Inl e \<Rightarrow> (Inl e, points)
      | Inr b \<Rightarrow>
          (let points' = (if b then butlast points else points)
           in (enclosedBy_body this points', points')))"

text \<open>
  \<open>meanOf(points)\<close>, with the array as the call leaves it; the function has no statement
  that writes to the array.
\<close>

fun meanOf_loop :: "point \<Rightarrow> point list \<Rightarrow> error + point" where
  "meanOf_loop m [] = Inr m"
| "meanOf_loop m (p # ps) =
     (case LatLonV_plus m (PointV p) of
        Inl e \<Rightarrow> Inl e
      | Inr m' \<Rightarrow> meanOf_loop m' ps)"

definition meanOf :: "point list \<Rightarrow> (error + point) \<times> point list" where
  "meanOf points =
     (case meanOf_loop (LatLonV (Fin 0) (Fin 0) (Some (Fin 0))) points of
        Inl e \<Rightarrow> (Inl e, points)
      | Inr m \<Rightarrow> (LatLonV_unit m, points))"

section \<open>Objects in a store\<close>

text \<open>
  The functions above compute with the values of points and vectors. A JavaScript
  caller holds references: a point, a vector and an array are objects, an array holds
  references to its points, and a method could write to any object it can reach. The
  operations are therefore modelled a second time over an explicit store, statement by
  statement: a property read looks the object up, \<open>new\<close> allocates a fresh object,
  \<open>points.pop()\<close> overwrites the array, and the numbers are computed by the functions
  above.
\<close>

datatype sval = SUndefined | SNum jsnum | SRef nat

datatype obj = PointO point | VectorO Vector3d | ArrayO "sval list"

type_synonym store = "obj list"

text \<open>A computation takes the store and returns its outcome and the store it leaves.\<close>

type_synonym 'a comp = "store \<Rightarrow> (error + 'a) \<times> store"

definition ret :: "'a \<Rightarrow> 'a comp" where
  "ret c s = (Inr c, s)"

definition raise :: "error \<Rightarrow> 'a comp" where
  "raise e s = (Inl e, s)"

definition bnd :: "'a comp \<Rightarrow> ('a \<Rightarrow> 'b comp) \<Rightarrow> 'b comp" where
  "bnd m f s = (case m s of (Inl e, s') \<Rightarrow> (Inl e, s') | (Inr c, s') \<Rightarrow> f c s')"

text \<open>\<open>new\<close>: the object is put at the first free address.\<close>

definition new_obj :: "obj \<Rightarrow> sval comp" where
  "new_obj ob s = (Inr (SRef (length s)), s @ [ob])"

text \<open>
  Reading the fields of a point, the components of a vector or the elements of an
  array through a value. A method of \<open>LatLonV\<close> or \<open>Vector3d\<close> called on anything else
  does not exist, and the call raises \<open>TypeError\<close>.
\<close>

definition lookup :: "sval \<Rightarrow> store \<Rightarrow> obj option" where
  "lookup v s = (case v of SRef a \<Rightarrow> (if a < length s then Some (s ! a) else None) | _ \<Rightarrow> None)"

definition read_point :: "sval \<Rightarrow> point comp" where
  "read_point v s = (case lookup v s of Some (PointO p) \<Rightarrow> (Inr p, s) | _ \<Rightarrow> (Inl TypeError, s))"

definition read_vector :: "sval \<Rightarrow> Vector3d comp" where
  "read_vector v s = (case lookup v s of Some (VectorO w) \<Rightarrow> (Inr w, s) | _ \<Rightarrow> (Inl TypeError, s))"

definition read_array :: "sval \<Rightarrow> sval list comp" where
  "read_array v s = (case lookup v s of Some (ArrayO xs) \<Rightarrow> (Inr xs, s) | _ \<Rightarrow> (Inl TypeError, s))"

text \<open>
  \<open>points.pop()\<close>: the only statement of the source that writes to an object that
  exists before the call.
\<close>

definition pop_s :: "sval \<Rightarrow> unit comp" where
  "pop_s v s =
     (case v of
        SRef a \<Rightarrow>
          (case lookup v s of
             Some (ArrayO xs) \<Rightarrow> (Inr (), s[a := ArrayO (butlast xs)])
           | _ \<Rightarrow> (Inl TypeError, s))
      | _ \<Rightarrow> (Inl TypeError, s))"

text \<open>\<open>typeof\<close> and \<open>Number\<close> on a value that may be a reference.\<close>

fun typeof_s :: "sval \<Rightarrow> string" where
  "typeof_s SUndefined = ''undefined''"
| "typeof_s (SNum _) = ''number''"
| "typeof_s (SRef _) = ''object''"

fun Number_s :: "sval \<Rightarrow> jsnum" where
  "Number_s SUndefined = NaN"
| "Number_s (SNum n) = n"
| "Number_s (SRef _) = NaN"

subsection \<open>Vector3d over the store\<close>

text \<open>
  The methods of \<open>Vector3d\<close> are missing from the source. By section 3 of the
  specification a vector is immutable (``no in-place mutation'') and is ``created by
  every arithmetic operation'': \<open>plus\<close>, \<open>times\<close>, \<open>cross\<close> and \<open>unit\<close> read their
  operands and allocate their result, \<open>dot\<close> and \<open>length\<close> read their operands and
  return a number.
\<close>

text \<open>Modelled from the spec: \<open>Vector3d.prototype.plus\<close> on references.\<close>

definition plus_s :: "sval \<Rightarrow> sval \<Rightarrow> sval comp" where
  "plus_s a b = bnd (read_vector a) (\<lambda>u. bnd (read_vector b) (\<lambda>w. new_obj (VectorO (plus_v u w))))"

text \<open>Modelled from the spec: \<open>Vector3d.prototype.times\<close> on a reference.\<close>

definition times_s :: "sval \<Rightarrow> jsnum \<Rightarrow> sval comp" where
  "times_s a k = bnd (read_vector a) (\<lambda>u. new_obj (VectorO (times_v u k)))"

text \<open>Modelled from the spec: \<open>Vector3d.prototype.cross\<close> on references.\<close>

definition cross_s :: "sval \<Rightarrow> sval \<Rightarrow> sval comp" where
  "cross_s a b = bnd (read_vector a) (\<lambda>u. bnd (read_vector b) (\<lambda>w. new_obj (VectorO (cross u w))))"

text \<open>Modelled from the spec: \<open>Vector3d.prototype.unit\<close> on a reference.\<close>

definition unit_s :: "sval \<Rightarrow> sval comp" where
  "unit_s a = bnd (read_vector a) (\<lambda>u. new_obj (VectorO (unit u)))"

text \<open>Modelled from the spec: \<open>Vector3d.prototype.dot\<close> on references.\<close>

definition dot_s :: "sval \<Rightarrow> sval \<Rightarrow> jsnum comp" where
  "dot_s a b = bnd (read_vector a) (\<lambda>u. bnd (read_vector b) (\<lambda>w. ret (dot u w)))"

text \<open>Modelled from the spec: \<open>Vector3d.prototype.length\<close> on a reference.\<close>

definition length_s :: "sval \<Rightarrow> jsnum comp" where
  "length_s a = bnd (read_vector a) (\<lambda>u. ret (length_v u))"

text \<open>
  Modelled from the spec: \<open>Vector3d.prototype.angleTo\<close> on references,
  \<open>atan2(length(cross(a,b)), dot(a,b))\<close>, the cross product being a vector it creates.
\<close>

definition angleTo_s :: "sval \<Rightarrow> sval \<Rightarrow> jsnum comp" where
  "angleTo_s a b =
     bnd (cross_s a b) (\<lambda>c.
     bnd (length_s c) (\<lambda>l.
     bnd (dot_s a b) (\<lambda>d.
     ret (jatan2 l d))))"

subsection \<open>LatLonV over the store\<close>

definition new_LatLonV :: "jsnum \<Rightarrow> jsnum \<Rightarrow> jsnum option \<Rightarrow> sval comp" where
  "new_LatLonV la lo r = new_obj (PointO (LatLonV la lo r))"

definition toVector_s :: "sval \<Rightarrow> sval comp" where
  "toVector_s this = bnd (read_point this) (\<lambda>p. new_obj (VectorO (toVector p)))"

definition toLatLon_s :: "sval \<Rightarrow> sval comp" where
  "toLatLon_s this = bnd (read_vector this) (\<lambda>w. new_obj (PointO (toLatLon w)))"

definition greatCircle_s :: "sval \<Rightarrow> sval \<Rightarrow> sval comp" where
  "greatCircle_s this bearing =
     bnd (read_point this) (\<lambda>p. new_obj (VectorO (greatCircle p (NumV (Number_s bearing)))))"

definition distanceTo_s :: "sval \<Rightarrow> sval \<Rightarrow> jsnum comp" where
  "distanceTo_s this pt =
     bnd (toVector_s this) (\<lambda>p1.
     bnd (toVector_s pt) (\<lambda>p2.
     bnd (angleTo_s p1 p2) (\<lambda>delta.
     bnd (read_point this) (\<lambda>p.
     ret (jmul delta (radius p))))))"

definition bearingTo_s :: "sval \<Rightarrow> sval \<Rightarrow> jsnum comp" where
  "bearingTo_s this pt =
     bnd (toVector_s this) (\<lambda>p1.
     bnd (toVector_s pt) (\<lambda>p2.
     bnd (new_obj (VectorO (Vector3d (Fin 0) (Fin 0) (Fin 1)))) (\<lambda>northPole.
     bnd (cross_s p1 p2) (\<lambda>c1.
     bnd (cross_s p1 northPole) (\<lambda>c2.
     bnd (cross_s c1 c2) (\<lambda>c12.
     bnd (length_s c12) (\<lambda>sin_theta.
     bnd (dot_s c1 c2) (\<lambda>cos_theta.
     bnd (cross_s c1 c2) (\<lambda>c12'.
     bnd (dot_s c12' p1) (\<lambda>d.
     (let sin_theta' = (if jlt d (Fin 0) then jneg sin_theta else sin_theta);
          bearing = toDegrees (jatan2 sin_theta' cos_theta)
      in ret (jmod (jadd bearing (Fin 360)) (Fin 360)))))))))))))"

definition midpointTo_s :: "sval \<Rightarrow> sval \<Rightarrow> sval comp" where
  "midpointTo_s this pt =
     bnd (toVector_s this) (\<lambda>p1.
     bnd (toVector_s pt) (\<lambda>p2.
     bnd (plus_s p1 p2) (\<lambda>sum.
     bnd (unit_s sum) (\<lambda>mid.
     toLatLon_s mid))))"

definition destinationPoint_s :: "sval \<Rightarrow> sval \<Rightarrow> sval \<Rightarrow> sval comp" where
  "destinationPoint_s this bearing distance =
     bnd (read_point this) (\<lambda>p.
     (let delta = jdiv (Number_s distance) (radius p)
      in bnd (greatCircle_s this bearing) (\<lambda>c.
         bnd (toVector_s this) (\<lambda>p1.
         bnd (times_s p1 (jcos delta)) (\<lambda>x.
         bnd (cross_s c p1) (\<lambda>cp.
         bnd (times_s cp (jsin delta)) (\<lambda>y.
         bnd (plus_s x y) (\<lambda>sum.
         bnd (unit_s sum) (\<lambda>p2.
         toLatLon_s p2)))))))))"

definition intersection_s :: "sval \<Rightarrow> sval \<Rightarrow> sval \<Rightarrow> sval \<Rightarrow> sval comp" where
  "intersection_s path1start path1brngEnd path2start path2brngEnd =
     bnd (if typeof_s path1brngEnd = ''LatLonV'' then raise TypeError
          else greatCircle_s path1start path1brngEnd) (\<lambda>c1.
     bnd (if typeof_s path2brngEnd = ''LatLonV'' then raise TypeError
          else greatCircle_s path2start path2brngEnd) (\<lambda>c2.
     bnd (cross_s c1 c2) (\<lambda>i.
     toLatLon_s i)))"

definition crossTrackDistanceTo_s :: "sval \<Rightarrow> sval \<Rightarrow> sval \<Rightarrow> jsnum comp" where
  "crossTrackDistanceTo_s this pathStart pathBrngEnd =
     bnd (toVector_s this) (\<lambda>p.
     bnd (if typeof_s SUndefined = ''LatLonV'' then raise ReferenceError
          else greatCircle_s pathStart (SNum (Number_s pathBrngEnd))) (\<lambda>gc.
     bnd (angleTo_s p gc) (\<lambda>a.
     bnd (read_point this) (\<lambda>q.
     ret (jmul (jsub (jdiv (Fin pi) (Fin 2)) a) (radius q))))))"

text \<open>
  A property read \<open>v.lat\<close>, \<open>v.lon\<close> or \<open>v.radius\<close> through a value: \<open>TypeError\<close> on
  \<open>undefined\<close>, and \<open>undefined\<close> (\<open>None\<close>) on a number and on an object without the
  property.
\<close>

definition field_s :: "(point \<Rightarrow> jsnum) \<Rightarrow> sval \<Rightarrow> jsnum option comp" where
  "field_s f v s =
     (case v of
        SUndefined \<Rightarrow> (Inl TypeError, s)
      | SNum _ \<Rightarrow> (Inr None, s)
      | SRef _ \<Rightarrow> (case lookup v s of Some (PointO p) \<Rightarrow> (Inr (Some (f p)), s) | _ \<Rightarrow> (Inr None, s)))"

definition equals_s :: "sval option \<Rightarrow> sval \<Rightarrow> sval \<Rightarrow> bool comp" where
  "equals_s g this pt =
     bnd (read_point this) (\<lambda>p.
     (case g of
        None \<Rightarrow> raise ReferenceError
      | Some points \<Rightarrow>
          bnd (field_s lat points) (\<lambda>la.
          if \<not> loose_eq (lat p) la then ret False
          else bnd (field_s lon pt) (\<lambda>lo.
               if \<not> loose_eq (lon p) lo then ret False
               else bnd (field_s radius pt) (\<lambda>r.
                    if loose_eq (radius p) r then ret True else ret False)))))"

text \<open>An array read \<open>xs[i]\<close>: \<open>undefined\<close> out of range.\<close>

definition elem_s :: "sval list \<Rightarrow> int \<Rightarrow> sval" where
  "elem_s xs i = (if 0 \<le> i \<and> i < int (length xs) then xs ! nat i else SUndefined)"

text \<open>The expression \<open>p1.cross.p2\<close>, which raises on every value (see \<open>cross_p2\<close>).\<close>

definition cross_p2_s :: "sval \<Rightarrow> jsnum comp" where
  "cross_p2_s v = raise TypeError"

fun enclosedBy_loop_s :: "sval \<Rightarrow> jsnum \<Rightarrow> jsnum \<Rightarrow> nat list \<Rightarrow> bool comp" where
  "enclosedBy_loop_s this side turn [] = ret True"
| "enclosedBy_loop_s this side turn (p # ps) =
     bnd (crossTrackDistanceTo_s this (SNum (Fin (real p))) (SNum (Fin (real p)))) (\<lambda>d.
     if jne (sign d) side then ret False
     else bnd (cross_p2_s (SNum (Fin (real p - 1)))) (\<lambda>t.
          if jne (sign t) turn then raise (Error ''Polygon must be convex'')
          else enclosedBy_loop_s this side turn ps))"

definition enclosedBy_s :: "sval option \<Rightarrow> sval \<Rightarrow> sval \<Rightarrow> bool comp" where
  "enclosedBy_s g this points =
     bnd (read_array points) (\<lambda>xs.
     bnd (equals_s g (elem_s xs 0) (elem_s xs (int (length xs) - 1))) (\<lambda>b.
     bnd (if b then pop_s points else ret ()) (\<lambda>_.
     bnd (read_array points) (\<lambda>ys.
     (let p1 = elem_s ys (int (length ys) - 1);
          p2 = elem_s ys 0
      in bnd (crossTrackDistanceTo_s this p2 p2) (\<lambda>d.
         bnd (cross_p2_s p1) (\<lambda>t.
         enclosedBy_loop_s this (sign d) (sign t) [1 ..< length ys])))))))"



text \<open>
  A store extends another when every object of the other is in it, at its address and
  unchanged. A computation keeps the store when the store it leaves extends the store
  it was given: whatever it returns or raises, it has written to no object that
  existed before.
\<close>

definition extends :: "store \<Rightarrow> store \<Rightarrow> bool" where
  "extends s s' = (take (length s) s' = s)"

definition keeps_store :: "'a comp \<Rightarrow> bool" where
  "keeps_store m = (\<forall>s. extends s (snd (m s)))"

section \<open>Notions used in the statements\<close>

text \<open>A number is non-finite when it is \<open>NaN\<close>, \<open>Infinity\<close> or \<open>-Infinity\<close>.\<close>

definition non_finite :: "jsnum \<Rightarrow> bool" where
  "non_finite a = (a = NaN \<or> a = PInf \<or> a = NInf)"

fun is_fin :: "jsnum \<Rightarrow> bool" where
  "is_fin (Fin _) = True"
| "is_fin _ = False"

text \<open>
  A coordinate is bounded by a bound when it is a finite number of at most that magnitude.
  A point is bounded when its latitude and longitude are bounded by \<open>1e307\<close>, so that
  their conversion to radians does not overflow, and its radius is finite.
\<close>

fun bounded_by :: "jsnum \<Rightarrow> real \<Rightarrow> bool" where
  "bounded_by (Fin a) m = (\<bar>a\<bar> \<le> m)"
| "bounded_by _ m = False"

definition bounded_point :: "point \<Rightarrow> bool" where
  "bounded_point p =
     (bounded_by (lat p) (10 ^ 307) \<and> bounded_by (lon p) (10 ^ 307) \<and> is_fin (radius p))"

text \<open>The component-wise negation of a vector, used to compare the two cross products.\<close>

definition neg_v :: "Vector3d \<Rightarrow> Vector3d" where
  "neg_v a = Vector3d (jneg (vx a)) (jneg (vy a)) (jneg (vz a))"

section \<open>Arithmetic of the number model\<close>

text \<open>
  The magnitudes met below are far from the overflow bound: a coordinate of at most
  \<open>1e307\<close> times \<open>\<pi>\<close> stays under it.
\<close>

lemma overflow_bound_gt: "4 * 10 ^ 307 < overflow_bound"
  unfolding overflow_bound_def by simp

lemma ovf_Fin: "\<bar>c\<bar> < overflow_bound \<Longrightarrow> ovf c = Fin c"
  by (simp add: ovf_def)

lemma ovf_le: "\<bar>c\<bar> \<le> 4 * 10 ^ 307 \<Longrightarrow> ovf c = Fin c"
  using overflow_bound_gt by (intro ovf_Fin) (rule le_less_trans)

lemma small_le: "(12::real) \<le> 4 * 10 ^ 307"
  by simp

lemma ovf_12: "\<bar>c\<bar> \<le> 12 \<Longrightarrow> ovf c = Fin c"
  using small_le by (intro ovf_le) (rule order_trans)

lemma ovf_unit [simp]: "\<bar>c\<bar> \<le> 1 \<Longrightarrow> ovf c = Fin c"
  by (rule ovf_12) simp

lemma ovf_0 [simp]: "ovf 0 = Fin 0"
  by simp

lemma overflow_bound_pos: "0 < overflow_bound"
  using overflow_bound_gt by (rule less_trans [rotated]) simp

lemma ovf_minus: "ovf (- c) = jneg (ovf c)"
  using overflow_bound_pos by (auto simp: ovf_def)

lemma ovf_not_NaN [simp]: "ovf c \<noteq> NaN"
  by (simp add: ovf_def)

lemma jadd_NaN_right [simp]: "jadd a NaN = NaN"
  by (cases a) simp_all

lemma jmul_NaN_right [simp]: "jmul a NaN = NaN"
  by (cases a) simp_all

lemma jdiv_NaN_right [simp]: "jdiv a NaN = NaN"
  by (cases a) simp_all

lemma jatan2_NaN_right [simp]: "jatan2 a NaN = NaN"
  by (cases a) simp_all

lemma jsub_NaN [simp]: "jsub NaN a = NaN" "jsub a NaN = NaN"
  by (simp_all add: jsub_def)

lemma jsub_Fin [simp]: "jsub (Fin a) (Fin b) = ovf (a - b)"
  by (simp add: jsub_def)

lemma jadd_commute: "jadd a b = jadd b a"
  by (cases a; cases b) (simp_all add: add.commute)

lemma jmul_commute: "jmul a b = jmul b a"
  by (cases a; cases b) (simp_all add: mult.commute)

lemma jneg_jadd: "jneg (jadd a b) = jadd (jneg a) (jneg b)"
  by (cases a; cases b) (simp_all flip: ovf_minus)

lemma jneg_jneg [simp]: "jneg (jneg a) = a"
  by (cases a) simp_all

lemma jsub_swap: "jsub a b = jneg (jsub b a)"
  by (simp add: jsub_def jneg_jadd jadd_commute)

lemma jmul_jneg_jneg: "jmul (jneg a) (jneg b) = jmul a b"
  by (cases a; cases b) auto

lemma jcos_non_finite: "non_finite a \<Longrightarrow> jcos a = NaN"
  by (auto simp: non_finite_def)

lemma jsin_non_finite: "non_finite a \<Longrightarrow> jsin a = NaN"
  by (auto simp: non_finite_def)

lemma toRadians_non_finite: "non_finite a \<Longrightarrow> non_finite (toRadians a)"
  by (auto simp: non_finite_def toRadians_def)

lemma jdiv_non_finite: "non_finite d \<Longrightarrow> non_finite (jdiv d r)"
  by (cases r) (auto simp: non_finite_def split: if_splits)

lemma jmul_non_finite: "non_finite r \<Longrightarrow> non_finite (jmul a r)"
  by (cases a) (auto simp: non_finite_def split: if_splits)

lemma abs_mult_le:
  fixes a b :: real
  shows "\<bar>a\<bar> \<le> m \<Longrightarrow> \<bar>b\<bar> \<le> n \<Longrightarrow> \<bar>a * b\<bar> \<le> m * n"
  by (simp add: abs_mult mult_mono)

lemma abs_prod_le_1:
  fixes a b :: real
  assumes "\<bar>a\<bar> \<le> 1" "\<bar>b\<bar> \<le> 1"
  shows "\<bar>a * b\<bar> \<le> 1"
  using abs_mult_le [OF assms] by simp

lemma ovf_prod: "\<bar>a\<bar> \<le> 1 \<Longrightarrow> \<bar>b\<bar> \<le> 1 \<Longrightarrow> ovf (a * b) = Fin (a * b)"
  by (rule ovf_unit) (rule abs_prod_le_1)

lemma ovf_trig [simp]:
  "ovf (cos a * cos b) = Fin (cos a * cos b)"
  "ovf (cos a * sin b) = Fin (cos a * sin b)"
  "ovf (sin a * cos b) = Fin (sin a * cos b)"
  "ovf (sin a * sin b) = Fin (sin a * sin b)"
  by (simp_all add: ovf_prod)

lemma abs_trig_prod:
  fixes a b :: real
  shows "\<bar>cos a * cos b\<bar> \<le> 1" "\<bar>cos a * sin b\<bar> \<le> 1"
  by (simp_all add: abs_prod_le_1 del: abs_mult)

section \<open>Vectors and conversions\<close>

lemma dot_commute: "dot a b = dot b a"
  by (simp add: dot_def jmul_commute)

lemma cross_swap: "cross b a = neg_v (cross a b)"
  unfolding cross_def neg_v_def
  by (simp add: jmul_commute [of "vx b"] jmul_commute [of "vy b"] jmul_commute [of "vz b"]
      jsub_swap [symmetric])

lemma length_neg_v: "length_v (neg_v a) = length_v a"
  by (simp add: length_v_def dot_def neg_v_def jmul_jneg_jneg)

lemma angleTo_commute: "angleTo a b = angleTo b a"
  by (simp add: angleTo_def cross_swap [of b a] length_neg_v dot_commute [of a b])

lemma unit_NaN: "unit (Vector3d NaN NaN NaN) = Vector3d NaN NaN NaN"
  by (simp add: unit_def length_v_def dot_def)

lemma fields_LatLonV: "lat (LatLonV a b r) = a" "lon (LatLonV a b r) = b"
  by (simp_all add: LatLonV_def)

lemma radius_LatLonV:
  "radius (LatLonV a b (Some r)) = r" "radius (LatLonV a b None) = Fin 6371"
  by (simp_all add: LatLonV_def)

text \<open>The conversion to radians of a coordinate of magnitude at most \<open>1e307\<close>.\<close>

lemma toRadians_Fin:
  assumes "\<bar>a\<bar> \<le> 10 ^ 307"
  shows "toRadians (Fin a) = Fin (a * pi / 180)"
proof -
  have p: "\<bar>pi\<bar> \<le> 4" using pi_less_4 pi_ge_zero by simp
  have "\<bar>a * pi\<bar> \<le> 10 ^ 307 * 4" by (rule abs_mult_le [OF assms p])
  then have m: "\<bar>a * pi\<bar> \<le> 4 * 10 ^ 307" by (simp only: mult.commute)
  have "\<bar>a * pi / 180\<bar> \<le> \<bar>a * pi\<bar>" by (simp add: abs_mult)
  then have d: "\<bar>a * pi / 180\<bar> \<le> 4 * 10 ^ 307" using m by (rule order_trans)
  have "180 \<noteq> (0::real)" by simp
  then show ?thesis
    unfolding toRadians_def by (simp only: jmul.simps jdiv.simps ovf_le [OF m] ovf_le [OF d] if_False)
qed

lemma toVector_finite:
  assumes "lat p = Fin a" "lon p = Fin b" "\<bar>a\<bar> \<le> 10 ^ 307" "\<bar>b\<bar> \<le> 10 ^ 307"
  shows "toVector p =
   Vector3d (Fin (cos (a * pi / 180) * cos (b * pi / 180)))
            (Fin (cos (a * pi / 180) * sin (b * pi / 180)))
            (Fin (sin (a * pi / 180)))"
  unfolding toVector_def Let_def assms(1,2) toRadians_Fin [OF assms(3)] toRadians_Fin [OF assms(4)]
  by simp

lemma toVector_Fin:
  assumes "\<bar>a\<bar> \<le> 10 ^ 307" "\<bar>b\<bar> \<le> 10 ^ 307"
  shows "toVector (LatLonV (Fin a) (Fin b) r) =
   Vector3d (Fin (cos (a * pi / 180) * cos (b * pi / 180)))
            (Fin (cos (a * pi / 180) * sin (b * pi / 180)))
            (Fin (sin (a * pi / 180)))"
  by (rule toVector_finite [OF fields_LatLonV assms])

lemma toVector_bounded:
  assumes "bounded_by (lat p) (10 ^ 307)" "bounded_by (lon p) (10 ^ 307)"
  shows "\<exists>x y z. toVector p = Vector3d (Fin x) (Fin y) (Fin z) \<and>
           \<bar>x\<bar> \<le> 1 \<and> \<bar>y\<bar> \<le> 1 \<and> \<bar>z\<bar> \<le> 1"
proof -
  obtain a where a: "lat p = Fin a" "\<bar>a\<bar> \<le> 10 ^ 307"
    using assms(1) by (cases "lat p") (simp_all only: bounded_by.simps jsnum.simps)
  obtain b where b: "lon p = Fin b" "\<bar>b\<bar> \<le> 10 ^ 307"
    using assms(2) by (cases "lon p") (simp_all only: bounded_by.simps jsnum.simps)
  show ?thesis
    unfolding toVector_finite [OF a(1) b(1) a(2) b(2)]
    using abs_trig_prod [of "a * pi / 180" "b * pi / 180"] abs_sin_le_one [of "a * pi / 180"]
    by blast
qed

lemma toLatLon_NaN:
  "toLatLon (Vector3d NaN NaN NaN) = \<lparr>lat = NaN, lon = NaN, radius = Fin 6371\<rparr>"
  by (simp add: toLatLon_def LatLonV_def toDegrees_def)

lemma radius_toLatLon: "radius (toLatLon v) = Fin 6371"
  by (simp add: toLatLon_def LatLonV_def Let_def)

section \<open>Vectors of bounded components\<close>

lemma ovf_360 [simp]: "ovf 360 = Fin 360"
proof -
  have "(360::real) \<le> 4 * 10 ^ 307" by simp
  then have "\<bar>360::real\<bar> \<le> 4 * 10 ^ 307" by simp
  then show ?thesis by (rule ovf_le)
qed

lemma cross_self:
  assumes "\<bar>x\<bar> \<le> 1" "\<bar>y\<bar> \<le> 1" "\<bar>z\<bar> \<le> 1"
  shows "cross (Vector3d (Fin x) (Fin y) (Fin z)) (Vector3d (Fin x) (Fin y) (Fin z)) =
         Vector3d (Fin 0) (Fin 0) (Fin 0)"
  using assms by (simp add: cross_def ovf_prod)

lemma cross_north:
  assumes "\<bar>x\<bar> \<le> 1" "\<bar>y\<bar> \<le> 1" "\<bar>z\<bar> \<le> 1"
  shows "cross (Vector3d (Fin x) (Fin y) (Fin z)) (Vector3d (Fin 0) (Fin 0) (Fin 1)) =
         Vector3d (Fin y) (Fin (- x)) (Fin 0)"
  using assms by (simp add: cross_def)

lemma cross_zero_left:
  "cross (Vector3d (Fin 0) (Fin 0) (Fin 0)) (Vector3d (Fin a) (Fin b) (Fin c)) =
   Vector3d (Fin 0) (Fin 0) (Fin 0)"
  by (simp add: cross_def)

lemma dot_zero_left:
  "dot (Vector3d (Fin 0) (Fin 0) (Fin 0)) (Vector3d (Fin a) (Fin b) (Fin c)) = Fin 0"
  by (simp add: dot_def)

lemma length_zero: "length_v (Vector3d (Fin 0) (Fin 0) (Fin 0)) = Fin 0"
  by (simp add: length_v_def dot_def)

lemma toDegrees_0: "toDegrees (Fin 0) = Fin 0"
  by (simp add: toDegrees_def)

lemma bearingTo_same_vector:
  assumes p: "toVector p = Vector3d (Fin x) (Fin y) (Fin z)"
    and q: "toVector q = Vector3d (Fin x) (Fin y) (Fin z)"
    and b: "\<bar>x\<bar> \<le> 1" "\<bar>y\<bar> \<le> 1" "\<bar>z\<bar> \<le> 1"
  shows "bearingTo p q = Fin 0"
  unfolding bearingTo_def Let_def p q cross_self [OF b] cross_north [OF b]
    cross_zero_left dot_zero_left length_zero
  by (simp add: atan2_def toDegrees_0 trunc_def)

text \<open>
  The angle between two vectors with components of magnitude at most 1 is a finite
  number: none of the products, sums and differences that \<open>cross\<close>, \<open>dot\<close> and
  \<open>length\<close> form overflows.
\<close>

lemma abs_diff_le:
  fixes a b :: real
  shows "\<bar>a\<bar> \<le> m \<Longrightarrow> \<bar>b\<bar> \<le> n \<Longrightarrow> \<bar>a - b\<bar> \<le> m + n"
  by linarith

lemma abs_sum_le:
  fixes a b :: real
  shows "\<bar>a\<bar> \<le> m \<Longrightarrow> \<bar>b\<bar> \<le> n \<Longrightarrow> \<bar>a + b\<bar> \<le> m + n"
  by linarith

lemma cross_bounded:
  assumes a: "\<bar>a1\<bar> \<le> 1" "\<bar>a2\<bar> \<le> 1" "\<bar>a3\<bar> \<le> 1"
    and b: "\<bar>b1\<bar> \<le> 1" "\<bar>b2\<bar> \<le> 1" "\<bar>b3\<bar> \<le> 1"
  shows "\<exists>c1 c2 c3.
           cross (Vector3d (Fin a1) (Fin a2) (Fin a3)) (Vector3d (Fin b1) (Fin b2) (Fin b3)) =
             Vector3d (Fin c1) (Fin c2) (Fin c3) \<and>
           \<bar>c1\<bar> \<le> 2 \<and> \<bar>c2\<bar> \<le> 2 \<and> \<bar>c3\<bar> \<le> 2"
proof -
  have d: "\<bar>u * v - w * t\<bar> \<le> 2"
    if "\<bar>u\<bar> \<le> 1" "\<bar>v\<bar> \<le> 1" "\<bar>w\<bar> \<le> 1" "\<bar>t\<bar> \<le> 1" for u v w t :: real
    using abs_diff_le [OF abs_prod_le_1 [OF that(1,2)] abs_prod_le_1 [OF that(3,4)]] by simp
  have o: "ovf (u * v - w * t) = Fin (u * v - w * t)"
    if "\<bar>u\<bar> \<le> 1" "\<bar>v\<bar> \<le> 1" "\<bar>w\<bar> \<le> 1" "\<bar>t\<bar> \<le> 1" for u v w t :: real
    using d [OF that] by (intro ovf_12) simp
  have "cross (Vector3d (Fin a1) (Fin a2) (Fin a3)) (Vector3d (Fin b1) (Fin b2) (Fin b3)) =
        Vector3d (Fin (a2 * b3 - a3 * b2)) (Fin (a3 * b1 - a1 * b3)) (Fin (a1 * b2 - a2 * b1))"
    using a b by (simp add: cross_def ovf_prod o)
  then show ?thesis using d a b by blast
qed

lemma dot_bounded:
  assumes a: "\<bar>a1\<bar> \<le> 1" "\<bar>a2\<bar> \<le> 1" "\<bar>a3\<bar> \<le> 1"
    and b: "\<bar>b1\<bar> \<le> 1" "\<bar>b2\<bar> \<le> 1" "\<bar>b3\<bar> \<le> 1"
  shows "dot (Vector3d (Fin a1) (Fin a2) (Fin a3)) (Vector3d (Fin b1) (Fin b2) (Fin b3)) =
         Fin (a1 * b1 + a2 * b2 + a3 * b3)"
proof -
  have p: "\<bar>a1 * b1\<bar> \<le> 1" "\<bar>a2 * b2\<bar> \<le> 1" "\<bar>a3 * b3\<bar> \<le> 1"
    using a b by (simp_all only: abs_prod_le_1)
  have s2: "\<bar>a1 * b1 + a2 * b2\<bar> \<le> 2"
    using abs_sum_le [OF p(1) p(2)] by simp
  have s3: "\<bar>a1 * b1 + a2 * b2 + a3 * b3\<bar> \<le> 3"
    using abs_sum_le [OF s2 p(3)] by simp
  have "ovf (a1 * b1 + a2 * b2) = Fin (a1 * b1 + a2 * b2)"
    using s2 by (intro ovf_12) simp
  moreover have "ovf (a1 * b1 + a2 * b2 + a3 * b3) = Fin (a1 * b1 + a2 * b2 + a3 * b3)"
    using s3 by (intro ovf_12) simp
  ultimately show ?thesis using a b by (simp add: dot_def ovf_prod)
qed

lemma length_bounded:
  assumes c: "\<bar>c1\<bar> \<le> 2" "\<bar>c2\<bar> \<le> 2" "\<bar>c3\<bar> \<le> 2"
  shows "length_v (Vector3d (Fin c1) (Fin c2) (Fin c3)) =
         Fin (sqrt (c1 * c1 + c2 * c2 + c3 * c3))"
proof -
  have p: "\<bar>c1 * c1\<bar> \<le> 4" "\<bar>c2 * c2\<bar> \<le> 4" "\<bar>c3 * c3\<bar> \<le> 4"
    using abs_mult_le [OF c(1) c(1)] abs_mult_le [OF c(2) c(2)] abs_mult_le [OF c(3) c(3)]
    by simp_all
  have s2: "\<bar>c1 * c1 + c2 * c2\<bar> \<le> 8"
    using abs_sum_le [OF p(1) p(2)] by simp
  have s3: "\<bar>c1 * c1 + c2 * c2 + c3 * c3\<bar> \<le> 12"
    using abs_sum_le [OF s2 p(3)] by simp
  have o: "ovf (c1 * c1) = Fin (c1 * c1)" "ovf (c2 * c2) = Fin (c2 * c2)"
          "ovf (c3 * c3) = Fin (c3 * c3)"
          "ovf (c1 * c1 + c2 * c2) = Fin (c1 * c1 + c2 * c2)"
          "ovf (c1 * c1 + c2 * c2 + c3 * c3) = Fin (c1 * c1 + c2 * c2 + c3 * c3)"
    using p s2 s3 by (auto intro!: ovf_12)
  have "\<not> c1 * c1 + c2 * c2 + c3 * c3 < 0"
    by (simp add: not_less add_nonneg_nonneg)
  then show ?thesis by (simp add: length_v_def dot_def o)
qed

lemma angleTo_finite:
  assumes a: "\<bar>a1\<bar> \<le> 1" "\<bar>a2\<bar> \<le> 1" "\<bar>a3\<bar> \<le> 1"
    and b: "\<bar>b1\<bar> \<le> 1" "\<bar>b2\<bar> \<le> 1" "\<bar>b3\<bar> \<le> 1"
  shows "is_fin (angleTo (Vector3d (Fin a1) (Fin a2) (Fin a3)) (Vector3d (Fin b1) (Fin b2) (Fin b3)))"
proof -
  obtain c1 c2 c3 where
    c: "cross (Vector3d (Fin a1) (Fin a2) (Fin a3)) (Vector3d (Fin b1) (Fin b2) (Fin b3)) =
          Vector3d (Fin c1) (Fin c2) (Fin c3)"
       "\<bar>c1\<bar> \<le> 2" "\<bar>c2\<bar> \<le> 2" "\<bar>c3\<bar> \<le> 2"
    using cross_bounded [OF a b] by blast
  show ?thesis
    unfolding angleTo_def c(1) length_bounded [OF c(2-4)] dot_bounded [OF a b] by simp
qed

lemma is_fin_iff: "is_fin a = (\<exists>c. a = Fin c)"
  by (cases a) simp_all

lemma distanceTo_not_NaN:
  assumes "bounded_point a" "bounded_point b"
  shows "distanceTo a b \<noteq> NaN"
proof -
  obtain x y z where va: "toVector a = Vector3d (Fin x) (Fin y) (Fin z)"
      "\<bar>x\<bar> \<le> 1" "\<bar>y\<bar> \<le> 1" "\<bar>z\<bar> \<le> 1"
    using toVector_bounded [of a] assms(1) unfolding bounded_point_def by blast
  obtain x' y' z' where vb: "toVector b = Vector3d (Fin x') (Fin y') (Fin z')"
      "\<bar>x'\<bar> \<le> 1" "\<bar>y'\<bar> \<le> 1" "\<bar>z'\<bar> \<le> 1"
    using toVector_bounded [of b] assms(2) unfolding bounded_point_def by blast
  obtain r where r: "radius a = Fin r"
    using assms(1) unfolding bounded_point_def is_fin_iff by blast
  obtain t where t: "angleTo (toVector a) (toVector b) = Fin t"
    using angleTo_finite [OF va(2-4) vb(2-4)] unfolding va(1) vb(1) is_fin_iff by blast
  show ?thesis by (simp add: distanceTo_def Let_def t r)
qed

lemma jeq_self: "a \<noteq> NaN \<Longrightarrow> jeq a a"
  by (simp add: jeq_def)

section \<open>The operations on points\<close>

lemma toDegrees_Fin:
  assumes "\<bar>c\<bar> \<le> 4"
  shows "toDegrees (Fin c) = Fin (c * 180 / pi)"
proof -
  have "\<bar>c * 180\<bar> \<le> 4 * 180" using abs_mult_le [OF assms, of 180 180] by simp
  moreover have "(4 * 180 :: real) \<le> 4 * 10 ^ 307" by simp
  ultimately have m: "\<bar>c * 180\<bar> \<le> 4 * 10 ^ 307" by (rule order_trans)
  have "1 \<le> pi" using pi_ge_two by simp
  then have "\<bar>c * 180\<bar> * 1 \<le> \<bar>c * 180\<bar> * pi"
    by (intro mult_left_mono) simp_all
  then have "\<bar>c * 180\<bar> / pi \<le> \<bar>c * 180\<bar>"
    by (simp add: field_simps)
  then have "\<bar>c * 180 / pi\<bar> \<le> \<bar>c * 180\<bar>"
    by (simp add: abs_mult)
  then have d: "\<bar>c * 180 / pi\<bar> \<le> 4 * 10 ^ 307" using m by (rule order_trans)
  have "pi \<noteq> 0" by simp
  then show ?thesis
    unfolding toDegrees_def by (simp only: jmul.simps jdiv.simps ovf_le [OF m] ovf_le [OF d] if_False)
qed

lemma coord_small:
  fixes c :: real
  assumes "\<bar>c\<bar> \<le> 360"
  shows "\<bar>c\<bar> \<le> 10 ^ 307"
proof -
  have "(360::real) \<le> 10 ^ 307" by simp
  with assms show ?thesis by (rule order_trans)
qed

lemma typeof_not_LatLonV: "typeof v \<noteq> ''LatLonV''"
  by (cases v) simp_all

lemma intersection_Inr:
  "intersection s1 b1 s2 b2 =
   Inr (toLatLon (cross (greatCircle s1 b1) (greatCircle s2 b2)))"
  by (simp add: intersection_def typeof_not_LatLonV)

lemma greatCircle_NaN: "Number b = NaN \<Longrightarrow> greatCircle s b = Vector3d NaN NaN NaN"
  by (simp add: greatCircle_def Let_def toRadians_def)

lemma cross_NaN_left: "cross (Vector3d NaN NaN NaN) c = Vector3d NaN NaN NaN"
  by (simp add: cross_def)

lemma enclosedBy_body_raises: "enclosedBy_body this points = Inl TypeError"
proof (cases "crossTrackDistanceTo this (elem points 0) (elem points 0)")
  case (Inl e)
  then have "e = TypeError"
    by (cases "elem points 0")
       (simp_all add: crossTrackDistanceTo_def Let_def split: sum.splits if_splits)
  with Inl show ?thesis by (simp add: enclosedBy_body_def Let_def)
next
  case (Inr d)
  have "cross_p2 v = Inl TypeError" for v by (cases v) simp_all
  with Inr show ?thesis by (simp add: enclosedBy_body_def Let_def)
qed

lemma ovf_pi: "ovf pi = Fin pi" "ovf (pi / 2) = Fin (pi / 2)"
proof -
  have "\<bar>pi\<bar> \<le> 12" "\<bar>pi / 2\<bar> \<le> 12" using pi_less_4 pi_ge_zero by simp_all
  then show "ovf pi = Fin pi" "ovf (pi / 2) = Fin (pi / 2)" by (simp_all only: ovf_12)
qed

text \<open>At the latitude \<open>1e308\<close> the conversion to radians overflows and the bearing is \<open>NaN\<close>.\<close>

lemma bearingTo_self_overflow:
  "bearingTo (LatLonV (Fin (10 ^ 308)) (Fin 0) None) (LatLonV (Fin (10 ^ 308)) (Fin 0) None) = NaN"
proof -
  have "overflow_bound \<le> 10 ^ 308 * 2" unfolding overflow_bound_def by simp
  also have "10 ^ 308 * 2 \<le> (10 ^ 308 * pi :: real)"
    using pi_ge_two by (intro mult_left_mono) simp_all
  finally have "\<not> \<bar>10 ^ 308 * pi\<bar> < overflow_bound" by simp
  then have "ovf (10 ^ 308 * pi) = PInf"
    by (simp add: ovf_def)
  then have r: "toRadians (Fin (10 ^ 308)) = PInf"
    by (simp add: toRadians_def)
  show ?thesis
    unfolding bearingTo_def toVector_def fields_LatLonV Let_def r
    by (simp add: cross_def dot_def length_v_def toDegrees_def)
qed

section \<open>Computations over the store\<close>

lemma extends_iff: "extends s s' \<longleftrightarrow> (\<exists>t. s' = s @ t)"
  unfolding extends_def
proof
  assume "take (length s) s' = s"
  then have "s' = s @ drop (length s) s'" by (metis append_take_drop_id)
  then show "\<exists>t. s' = s @ t" ..
next
  assume "\<exists>t. s' = s @ t"
  then show "take (length s) s' = s" by auto
qed

lemma extends_refl: "extends s s"
  by (simp add: extends_def)

lemma extends_trans: "extends s s' \<Longrightarrow> extends s' s'' \<Longrightarrow> extends s s''"
  by (auto simp: extends_iff)

lemma extends_append: "extends s (s @ t)"
  by (simp add: extends_def)

lemma keeps_ret: "keeps_store (ret c)"
  by (simp add: keeps_store_def ret_def extends_refl)

lemma keeps_raise: "keeps_store (raise e)"
  by (simp add: keeps_store_def raise_def extends_refl)

lemma keeps_new_obj: "keeps_store (new_obj ob)"
  by (simp add: keeps_store_def new_obj_def extends_append)

lemma keeps_read_point: "keeps_store (read_point v)"
  by (simp add: keeps_store_def read_point_def extends_refl split: option.split obj.split)

lemma keeps_read_vector: "keeps_store (read_vector v)"
  by (simp add: keeps_store_def read_vector_def extends_refl split: option.split obj.split)

lemma keeps_read_array: "keeps_store (read_array v)"
  by (simp add: keeps_store_def read_array_def extends_refl split: option.split obj.split)

lemma keeps_field_s: "keeps_store (field_s f v)"
  by (simp add: keeps_store_def field_s_def extends_refl split: sval.split option.split obj.split)

lemma keeps_bnd:
  assumes m: "keeps_store m" and f: "\<And>c. keeps_store (f c)"
  shows "keeps_store (bnd m f)"
  unfolding keeps_store_def
proof
  fix s
  obtain r s' where ms: "m s = (r, s')" by (cases "m s")
  from m have e1: "extends s s'" using ms by (auto simp: keeps_store_def dest: spec [of _ s])
  show "extends s (snd (bnd m f s))"
  proof (cases r)
    case (Inl e)
    then show ?thesis using ms e1 by (simp add: bnd_def)
  next
    case (Inr c)
    from f [of c] have "extends s' (snd (f c s'))" by (simp add: keeps_store_def)
    with e1 have "extends s (snd (f c s'))" by (rule extends_trans)
    then show ?thesis using ms Inr by (simp add: bnd_def)
  qed
qed

lemma keeps_if: "keeps_store m \<Longrightarrow> keeps_store n \<Longrightarrow> keeps_store (if c then m else n)"
  by simp

lemmas keeps_intros =
  keeps_bnd keeps_if keeps_ret keeps_raise keeps_new_obj keeps_read_point keeps_read_vector
  keeps_read_array keeps_field_s

lemma keeps_plus_s: "keeps_store (plus_s a b)"
  unfolding plus_s_def by (intro keeps_intros)

lemma keeps_times_s: "keeps_store (times_s a k)"
  unfolding times_s_def by (intro keeps_intros)

lemma keeps_cross_s: "keeps_store (cross_s a b)"
  unfolding cross_s_def by (intro keeps_intros)

lemma keeps_unit_s: "keeps_store (unit_s a)"
  unfolding unit_s_def by (intro keeps_intros)

lemma keeps_dot_s: "keeps_store (dot_s a b)"
  unfolding dot_s_def by (intro keeps_intros)

lemma keeps_length_s: "keeps_store (length_s a)"
  unfolding length_s_def by (intro keeps_intros)

lemma keeps_angleTo_s: "keeps_store (angleTo_s a b)"
  unfolding angleTo_s_def by (intro keeps_intros keeps_cross_s keeps_length_s keeps_dot_s)

lemma keeps_new_LatLonV: "keeps_store (new_LatLonV la lo r)"
  unfolding new_LatLonV_def by (rule keeps_new_obj)

lemma keeps_toVector_s: "keeps_store (toVector_s this)"
  unfolding toVector_s_def by (intro keeps_intros)

lemma keeps_toLatLon_s: "keeps_store (toLatLon_s this)"
  unfolding toLatLon_s_def by (intro keeps_intros)

lemma keeps_greatCircle_s: "keeps_store (greatCircle_s this bearing)"
  unfolding greatCircle_s_def by (intro keeps_intros)

lemmas keeps_methods =
  keeps_plus_s keeps_times_s keeps_cross_s keeps_unit_s keeps_dot_s keeps_length_s
  keeps_angleTo_s keeps_new_LatLonV keeps_toVector_s keeps_toLatLon_s keeps_greatCircle_s






lemma keeps_crossTrackDistanceTo_s: "keeps_store (crossTrackDistanceTo_s this ps pb)"
  unfolding crossTrackDistanceTo_s_def by (intro keeps_intros keeps_methods)


lemma keeps_cross_p2_s: "keeps_store (cross_p2_s v)"
  unfolding cross_p2_s_def by (rule keeps_raise)

lemma keeps_enclosedBy_loop_s: "keeps_store (enclosedBy_loop_s this side turn ps)"
  by (induction ps) (auto intro!: keeps_intros keeps_crossTrackDistanceTo_s keeps_cross_p2_s)



text \<open>
  In the file as it is, \<open>equals\<close> raises before it returns, so the \<open>pop\<close> of
  \<open>enclosedBy\<close> is not reached.
\<close>

lemma equals_s_None:
  "equals_s None this pt s = (Inl TypeError, s) \<or>
   equals_s None this pt s = (Inl ReferenceError, s)"
  by (simp add: equals_s_def bnd_def read_point_def raise_def split: option.split obj.split)

lemma enclosedBy_s_None:
  "enclosedBy_s None this points =
     bnd (read_array points) (\<lambda>xs.
     bnd (equals_s None (elem_s xs 0) (elem_s xs (int (length xs) - 1))) (\<lambda>b. raise TypeError))"
proof
  fix s
  show "enclosedBy_s None this points s =
     bnd (read_array points) (\<lambda>xs.
     bnd (equals_s None (elem_s xs 0) (elem_s xs (int (length xs) - 1))) (\<lambda>b. raise TypeError)) s"
  proof (cases "read_array points s")
    case (Pair r s')
    show ?thesis
    proof (cases r)
      case (Inl e)
      then show ?thesis using Pair by (simp add: enclosedBy_s_def bnd_def)
    next
      case (Inr xs)
      from equals_s_None [of "elem_s xs 0" "elem_s xs (int (length xs) - 1)" s']
      show ?thesis using Pair Inr by (auto simp: enclosedBy_s_def bnd_def)
    qed
  qed
qed


section \<open>The range of the returned longitude\<close>



section \<open>The store and the values\<close>

lemmas store_defs =
  bnd_def ret_def raise_def new_obj_def read_point_def read_vector_def read_array_def
  lookup_def nth_append

lemmas vector_s_defs =
  plus_s_def times_s_def cross_s_def unit_s_def dot_s_def length_s_def angleTo_s_def
  toVector_s_def toLatLon_s_def greatCircle_s_def

lemma distanceTo_s_value:
  assumes "i < length s" "s ! i = PointO p" "j < length s" "s ! j = PointO q"
  shows "fst (distanceTo_s (SRef i) (SRef j) s) = Inr (distanceTo p q)"
  using assms
  by (simp add: distanceTo_s_def distanceTo_def angleTo_def Let_def vector_s_defs store_defs)

lemma bearingTo_s_value:
  assumes "i < length s" "s ! i = PointO p" "j < length s" "s ! j = PointO q"
  shows "fst (bearingTo_s (SRef i) (SRef j) s) = Inr (bearingTo p q)"
  using assms
  by (simp add: bearingTo_s_def bearingTo_def Let_def vector_s_defs store_defs)

lemma midpointTo_s_value:
  assumes "i < length s" "s ! i = PointO p" "j < length s" "s ! j = PointO q"
  shows "midpointTo_s (SRef i) (SRef j) s =
           (Inr (SRef (length s + 4)),
            s @ [VectorO (toVector p), VectorO (toVector q),
                 VectorO (plus_v (toVector p) (toVector q)),
                 VectorO (unit (plus_v (toVector p) (toVector q))),
                 PointO (midpointTo p q)])"
  using assms
  by (simp add: midpointTo_s_def midpointTo_def Let_def vector_s_defs store_defs)

lemma destinationPoint_s_value:
  assumes "i < length s" "s ! i = PointO p"
  shows "\<exists>t. destinationPoint_s (SRef i) (SNum b) (SNum d) s =
           (Inr (SRef (length s + length t)),
            s @ t @ [PointO (destinationPoint p (NumV b) (NumV d))])"
proof -
  let ?delta = "jdiv d (radius p)"
  let ?c = "greatCircle p (NumV b)"
  let ?p1 = "toVector p"
  let ?x = "times_v ?p1 (jcos ?delta)"
  let ?cp = "cross ?c ?p1"
  let ?y = "times_v ?cp (jsin ?delta)"
  let ?t = "[VectorO ?c, VectorO ?p1, VectorO ?x, VectorO ?cp, VectorO ?y,
             VectorO (plus_v ?x ?y), VectorO (unit (plus_v ?x ?y))]"
  have "destinationPoint_s (SRef i) (SNum b) (SNum d) s =
           (Inr (SRef (length s + length ?t)),
            s @ ?t @ [PointO (destinationPoint p (NumV b) (NumV d))])"
    using assms
    by (simp add: destinationPoint_s_def destinationPoint_def Let_def vector_s_defs store_defs)
  then show ?thesis by blast
qed

lemma intersection_s_value:
  assumes "i < length s" "s ! i = PointO p" "j < length s" "s ! j = PointO q"
  shows "\<exists>r. intersection p (NumV b1) q (NumV b2) = Inr r \<and>
             intersection_s (SRef i) (SNum b1) (SRef j) (SNum b2) s =
               (Inr (SRef (length s + 3)),
                s @ [VectorO (greatCircle p (NumV b1)), VectorO (greatCircle q (NumV b2)),
                     VectorO (cross (greatCircle p (NumV b1)) (greatCircle q (NumV b2))),
                     PointO r])"
  using assms
  by (simp add: intersection_s_def intersection_def Let_def vector_s_defs store_defs)

lemma enclosedBy_s_raises:
  assumes "k < length s" "s ! k = ArrayO (SRef i # xs)" "i < length s" "s ! i = PointO p"
  shows "enclosedBy_s None this (SRef k) s = (Inl ReferenceError, s)"
  using assms
  by (simp add: enclosedBy_s_None equals_s_def elem_s_def store_defs)

text \<open>
  \<open>equals\<close> returns only where the page that loads the file has defined a global
  \<open>points\<close>. There the \<open>pop\<close> is reached and the store does not keep the caller's array:
  the frame property below is a property of the file as it is loaded on its own.
\<close>

lemma pop_reached_with_global_points:
  "snd (enclosedBy_s (Some (SRef 0)) (SRef 0) (SRef 1)
          [PointO (LatLonV (Fin 0) (Fin 0) None), ArrayO [SRef 0, SRef 0]]) ! 1 =
     ArrayO [SRef 0]"
  by (simp add: enclosedBy_s_def equals_s_def field_s_def pop_s_def elem_s_def
      crossTrackDistanceTo_s_def cross_p2_s_def fields_LatLonV radius_LatLonV jeq_def Let_def
      vector_s_defs store_defs)

section \<open>The claims\<close>

subsection \<open>C1: the round trip through the n-vector\<close>




subsection \<open>C2: the plane normals of \<open>intersection\<close>\<close>

text \<open>
  C2 says that a path given by its endpoint has the plane normal
  \<open>cross(start, end)\<close>. The code tests \<open>typeof path1brngEnd == 'LatLonV'\<close>, which no
  value satisfies, so a path given by an endpoint is handled as a bearing: the endpoint
  is converted with \<open>Number\<close>, which gives \<open>NaN\<close>, and the returned point has the
  coordinates \<open>NaN\<close>. For the equator path from (0, 0) to (0, 90) and the meridian path
  from (90, 0) to (0, 90), the normals of the claim give the direction of the point
  (0, -90), the antipode of the common endpoint.
\<close>

theorem intersection_of_endpoint_paths:
  "intersection (LatLonV (Fin 0) (Fin 0) None) (PointV (LatLonV (Fin 0) (Fin 90) None))
                (LatLonV (Fin 90) (Fin 0) None) (PointV (LatLonV (Fin 0) (Fin 90) None)) =
     Inr \<lparr>lat = NaN, lon = NaN, radius = Fin 6371\<rparr> \<and>
   toLatLon (cross (cross (toVector (LatLonV (Fin 0) (Fin 0) None))
                          (toVector (LatLonV (Fin 0) (Fin 90) None)))
                   (cross (toVector (LatLonV (Fin 90) (Fin 0) None))
                          (toVector (LatLonV (Fin 0) (Fin 90) None)))) =
     \<lparr>lat = Fin 0, lon = Fin (- 90), radius = Fin 6371\<rparr>"
proof -
  have "intersection (LatLonV (Fin 0) (Fin 0) None) (PointV (LatLonV (Fin 0) (Fin 90) None))
                (LatLonV (Fin 90) (Fin 0) None) (PointV (LatLonV (Fin 0) (Fin 90) None)) =
     Inr \<lparr>lat = NaN, lon = NaN, radius = Fin 6371\<rparr>"
    by (simp add: intersection_Inr greatCircle_NaN cross_NaN_left toLatLon_NaN)
  moreover have "toLatLon (cross (cross (toVector (LatLonV (Fin 0) (Fin 0) None))
                          (toVector (LatLonV (Fin 0) (Fin 90) None)))
                   (cross (toVector (LatLonV (Fin 90) (Fin 0) None))
                          (toVector (LatLonV (Fin 0) (Fin 90) None)))) =
     \<lparr>lat = Fin 0, lon = Fin (- 90), radius = Fin 6371\<rparr>"
  proof -
    have c0: "\<bar>0::real\<bar> \<le> 10 ^ 307" and c90: "\<bar>90::real\<bar> \<le> 10 ^ 307"
      by (rule coord_small, simp)+
    have v: "toVector (LatLonV (Fin 0) (Fin 0) None) = Vector3d (Fin 1) (Fin 0) (Fin 0)"
            "toVector (LatLonV (Fin 0) (Fin 90) None) = Vector3d (Fin 0) (Fin 1) (Fin 0)"
            "toVector (LatLonV (Fin 90) (Fin 0) None) = Vector3d (Fin 0) (Fin 0) (Fin 1)"
      by (simp_all add: toVector_Fin [OF c0 c0] toVector_Fin [OF c0 c90] toVector_Fin [OF c90 c0])
    have d: "toDegrees (Fin (- (pi / 2))) = Fin (- 90)"
    proof -
      have "\<bar>- (pi / 2)\<bar> \<le> 4" using pi_less_4 pi_ge_zero by simp
      then show ?thesis by (simp add: toDegrees_Fin)
    qed
    show ?thesis
      unfolding v by (simp add: cross_def toLatLon_def LatLonV_def atan2_def toDegrees_0 d)
  qed
  ultimately show ?thesis by simp
qed

subsection \<open>C3: \<open>enclosedBy\<close>\<close>

text \<open>
  C3 says that \<open>enclosedBy\<close> returns whether the signs of the cross-track distances to
  all edges agree. The code returns nothing: every call raises an exception. With no
  global variable \<open>points\<close>, the first line raises \<open>ReferenceError\<close> on every non-empty
  vertex list; and with any such global, a call that passes the first line raises
  \<open>TypeError\<close> at \<open>p1.cross.p2\<close> at the latest.
\<close>

theorem enclosedBy_raises:
  "fst (enclosedBy None this (p # ps)) = Inl ReferenceError \<and>
   (\<exists>e. fst (enclosedBy g this points) = Inl e)"
proof -
  have "fst (enclosedBy None this (p # ps)) = Inl ReferenceError"
    by (simp add: enclosedBy_def elem_def equals_def)
  moreover have "\<exists>e. fst (enclosedBy g this points) = Inl e"
    by (simp add: enclosedBy_def enclosedBy_body_raises Let_def split: sum.splits)
  ultimately show ?thesis by simp
qed

subsection \<open>C4: the symmetry of \<open>distanceTo\<close>\<close>

text \<open>
  The distance is the angle between the two points scaled by the radius of the receiver
  only. Two points a quarter of a circle apart, with the radii 1 and 2, are at the
  distance \<open>\<pi>/2\<close> one way and \<open>\<pi>\<close> the other way.
\<close>

theorem distanceTo_differs_with_radii:
  "distanceTo (LatLonV (Fin 0) (Fin 0) (Some (Fin 1))) (LatLonV (Fin 0) (Fin 90) (Some (Fin 2))) =
     Fin (pi / 2) \<and>
   distanceTo (LatLonV (Fin 0) (Fin 90) (Some (Fin 2))) (LatLonV (Fin 0) (Fin 0) (Some (Fin 1))) =
     Fin pi \<and>
   distanceTo (LatLonV (Fin 0) (Fin 0) (Some (Fin 1))) (LatLonV (Fin 0) (Fin 90) (Some (Fin 2))) \<noteq>
   distanceTo (LatLonV (Fin 0) (Fin 90) (Some (Fin 2))) (LatLonV (Fin 0) (Fin 0) (Some (Fin 1)))"
proof -
  have c0: "\<bar>0::real\<bar> \<le> 10 ^ 307" and c90: "\<bar>90::real\<bar> \<le> 10 ^ 307"
    by (rule coord_small, simp)+
  have v: "toVector (LatLonV (Fin 0) (Fin 0) (Some (Fin 1))) = Vector3d (Fin 1) (Fin 0) (Fin 0)"
          "toVector (LatLonV (Fin 0) (Fin 90) (Some (Fin 2))) = Vector3d (Fin 0) (Fin 1) (Fin 0)"
    by (simp_all add: toVector_Fin [OF c0 c0] toVector_Fin [OF c0 c90])
  have a: "angleTo (Vector3d (Fin 1) (Fin 0) (Fin 0)) (Vector3d (Fin 0) (Fin 1) (Fin 0)) =
             Fin (pi / 2)"
          "angleTo (Vector3d (Fin 0) (Fin 1) (Fin 0)) (Vector3d (Fin 1) (Fin 0) (Fin 0)) =
             Fin (pi / 2)"
    by (simp_all add: angleTo_def cross_def dot_def length_v_def atan2_def)
  show ?thesis
    unfolding distanceTo_def Let_def v a radius_LatLonV by (simp add: ovf_pi)
qed

text \<open>
  C4, as amended: for every pair of points \<open>a\<close> and \<open>b\<close> that have the same radius,
  \<open>distanceTo(a,b)\<close> and \<open>distanceTo(b,a)\<close> are the same value; and when the
  latitude and the longitude of both points have a magnitude of at most \<open>1e307\<close> and
  the radius is finite, that value is not \<open>NaN\<close>, so that the comparison \<open>==\<close> of the
  two distances is true. (Beyond \<open>1e307\<close> the conversion to radians can overflow, and
  both distances are \<open>NaN\<close>.)
\<close>

theorem distanceTo_symmetric_same_radius:
  assumes "radius a = radius b"
  shows "distanceTo a b = distanceTo b a \<and>
         (bounded_point a \<and> bounded_point b \<longrightarrow> jeq (distanceTo a b) (distanceTo b a))"
proof -
  have eq: "distanceTo a b = distanceTo b a"
    using assms by (simp add: distanceTo_def Let_def angleTo_commute [of "toVector a"])
  moreover have "jeq (distanceTo a b) (distanceTo b a)" if "bounded_point a" "bounded_point b"
    using distanceTo_not_NaN [OF that] eq by (simp add: jeq_self)
  ultimately show ?thesis by simp
qed

theorem distanceTo_symmetric_same_radius_witness:
  "radius (LatLonV (Fin 0) (Fin 0) None) = radius (LatLonV (Fin 0) (Fin 90) None) \<and>
   bounded_point (LatLonV (Fin 0) (Fin 0) None) \<and> bounded_point (LatLonV (Fin 0) (Fin 90) None) \<and>
   distanceTo (LatLonV (Fin 0) (Fin 0) None) (LatLonV (Fin 0) (Fin 90) None) =
   distanceTo (LatLonV (Fin 0) (Fin 90) None) (LatLonV (Fin 0) (Fin 0) None) \<and>
   jeq (distanceTo (LatLonV (Fin 0) (Fin 0) None) (LatLonV (Fin 0) (Fin 90) None))
       (distanceTo (LatLonV (Fin 0) (Fin 90) None) (LatLonV (Fin 0) (Fin 0) None))"
proof -
  have h: "radius (LatLonV (Fin 0) (Fin 0) None) = radius (LatLonV (Fin 0) (Fin 90) None)"
    by (simp add: radius_LatLonV)
  have f: "bounded_point (LatLonV (Fin 0) (Fin 0) None)"
          "bounded_point (LatLonV (Fin 0) (Fin 90) None)"
    by (simp_all add: bounded_point_def LatLonV_def)
  note sym = distanceTo_symmetric_same_radius [OF h]
  from sym have e: "distanceTo (LatLonV (Fin 0) (Fin 0) None) (LatLonV (Fin 0) (Fin 90) None) =
      distanceTo (LatLonV (Fin 0) (Fin 90) None) (LatLonV (Fin 0) (Fin 0) None)"
    by (rule conjunct1)
  from sym f have j: "jeq (distanceTo (LatLonV (Fin 0) (Fin 0) None) (LatLonV (Fin 0) (Fin 90) None))
      (distanceTo (LatLonV (Fin 0) (Fin 90) None) (LatLonV (Fin 0) (Fin 0) None))"
    by blast
  from h f e j show ?thesis by (intro conjI)
qed

subsection \<open>C5: the bearing from a point to itself\<close>

text \<open>
  The bearing from the point (0, 0) to itself is the number 0: no error is reported.
\<close>

theorem bearingTo_self_at_origin:
  "bearingTo (LatLonV (Fin 0) (Fin 0) None) (LatLonV (Fin 0) (Fin 0) None) = Fin 0"
proof -
  have c0: "\<bar>0::real\<bar> \<le> 10 ^ 307" by (rule coord_small) simp
  have v: "toVector (LatLonV (Fin 0) (Fin 0) None) = Vector3d (Fin 1) (Fin 0) (Fin 0)"
    by (simp add: toVector_Fin [OF c0 c0])
  show ?thesis by (rule bearingTo_same_vector [OF v v]) simp_all
qed

text \<open>
  C5, as amended: for every point \<open>p\<close> whose latitude and longitude have a magnitude
  of at most \<open>1e307\<close>, \<open>bearingTo(p, p)\<close> returns the bearing 0. The normal
  \<open>cross(p1, p2)\<close> of the great circle through the two points is the zero vector,
  \<open>atan2(0, 0)\<close> is 0, and no error is reported.
\<close>

theorem bearingTo_self_is_zero:
  assumes "\<bar>a\<bar> \<le> 10 ^ 307" "\<bar>b\<bar> \<le> 10 ^ 307"
  shows "bearingTo (LatLonV (Fin a) (Fin b) r) (LatLonV (Fin a) (Fin b) r) = Fin 0"
proof -
  note v = toVector_Fin [OF assms, of r]
  show ?thesis
    by (rule bearingTo_same_vector [OF v v])
       (simp_all only: abs_trig_prod abs_sin_le_one)
qed

theorem bearingTo_self_is_zero_witness:
  "\<bar>45 :: real\<bar> \<le> 10 ^ 307 \<and> \<bar>- 120 :: real\<bar> \<le> 10 ^ 307 \<and>
   bearingTo (LatLonV (Fin 45) (Fin (- 120)) None) (LatLonV (Fin 45) (Fin (- 120)) None) = Fin 0"
proof -
  have c: "\<bar>45 :: real\<bar> \<le> 10 ^ 307" "\<bar>- 120 :: real\<bar> \<le> 10 ^ 307"
    by (rule coord_small, simp)+
  from c bearingTo_self_is_zero [OF c] show ?thesis by (intro conjI)
qed

subsection \<open>C7: \<open>meanOf\<close>\<close>

text \<open>
  C7 says that \<open>meanOf\<close> returns the point in the direction of the sum of the
  n-vectors. The code accumulates in a point, not in a vector, and calls the methods
  \<open>plus\<close> and \<open>unit\<close> that a point does not have: every call raises \<open>TypeError\<close>.
\<close>

theorem meanOf_raises:
  "fst (meanOf points) = Inl TypeError"
  by (cases points) (simp_all add: meanOf_def LatLonV_plus_def LatLonV_unit_def)

subsection \<open>C8: non-finite input\<close>

text \<open>
  Nothing rejects a non-finite number. With the latitude \<open>NaN\<close>, the bearing
  \<open>Infinity\<close>, the longitude \<open>-Infinity\<close> and the radius \<open>NaN\<close>, the conversion gives a
  vector and \<open>intersection\<close> returns a point.
\<close>

theorem non_finite_input_accepted:
  "toVector (LatLonV NaN (Fin 0) None) = Vector3d NaN NaN NaN \<and>
   intersection (LatLonV NaN (Fin 0) None) (NumV PInf)
                (LatLonV (Fin 0) NInf (Some NaN)) (NumV (Fin 0)) =
     Inr \<lparr>lat = NaN, lon = NaN, radius = Fin 6371\<rparr>"
  by (simp add: intersection_Inr toVector_def greatCircle_def fields_LatLonV toRadians_def
      Let_def cross_def toLatLon_NaN)

text \<open>
  C8, as amended: a non-finite latitude, longitude, radius, bearing or distance is not
  rejected; the constructor stores it and the operations compute with it. A non-finite
  latitude or longitude makes the first two components of the n-vector \<open>NaN\<close>, a
  non-finite bearing makes the great-circle normal the vector of three \<open>NaN\<close>, a
  non-finite distance makes the destination the point with the coordinates \<open>NaN\<close>, and
  a non-finite radius makes every distance from the point non-finite.
\<close>

theorem non_finite_input_propagates:
  assumes "non_finite n"
  shows "lat (LatLonV n lo r) = n \<and> lon (LatLonV la n r) = n \<and>
         radius (LatLonV la lo (Some n)) = n \<and>
         vx (toVector (LatLonV n lo r)) = NaN \<and> vy (toVector (LatLonV n lo r)) = NaN \<and>
         vx (toVector (LatLonV la n r)) = NaN \<and> vy (toVector (LatLonV la n r)) = NaN \<and>
         greatCircle p (NumV n) = Vector3d NaN NaN NaN \<and>
         destinationPoint p v (NumV n) = \<lparr>lat = NaN, lon = NaN, radius = Fin 6371\<rparr> \<and>
         non_finite (distanceTo (LatLonV la lo (Some n)) q)"
proof -
  have c: "jcos (toRadians n) = NaN" and s: "jsin (toRadians n) = NaN"
    using assms by (simp_all add: toRadians_non_finite jcos_non_finite jsin_non_finite)
  have "vx (toVector (LatLonV n lo r)) = NaN" "vy (toVector (LatLonV n lo r)) = NaN"
       "vx (toVector (LatLonV la n r)) = NaN" "vy (toVector (LatLonV la n r)) = NaN"
    by (simp_all add: toVector_def Let_def fields_LatLonV c s)
  moreover have "greatCircle p (NumV n) = Vector3d NaN NaN NaN"
    by (simp add: greatCircle_def Let_def c s)
  moreover have "destinationPoint p v (NumV n) = \<lparr>lat = NaN, lon = NaN, radius = Fin 6371\<rparr>"
    using assms
    by (simp add: destinationPoint_def Let_def jcos_non_finite jsin_non_finite jdiv_non_finite
        times_v_def plus_v_def unit_NaN toLatLon_NaN)
  moreover have "non_finite (distanceTo (LatLonV la lo (Some n)) q)"
    using assms by (simp add: distanceTo_def Let_def jmul_non_finite radius_LatLonV)
  ultimately show ?thesis by (simp add: fields_LatLonV radius_LatLonV)
qed

theorem non_finite_input_propagates_witness:
  "non_finite PInf \<and>
   lat (LatLonV PInf (Fin 0) None) = PInf \<and> lon (LatLonV (Fin 0) PInf None) = PInf \<and>
   radius (LatLonV (Fin 0) (Fin 0) (Some PInf)) = PInf \<and>
   vx (toVector (LatLonV PInf (Fin 0) None)) = NaN \<and>
   vy (toVector (LatLonV PInf (Fin 0) None)) = NaN \<and>
   vx (toVector (LatLonV (Fin 0) PInf None)) = NaN \<and>
   vy (toVector (LatLonV (Fin 0) PInf None)) = NaN \<and>
   greatCircle (LatLonV (Fin 0) (Fin 0) None) (NumV PInf) = Vector3d NaN NaN NaN \<and>
   destinationPoint (LatLonV (Fin 0) (Fin 0) None) (NumV (Fin 0)) (NumV PInf) =
     \<lparr>lat = NaN, lon = NaN, radius = Fin 6371\<rparr> \<and>
   non_finite (distanceTo (LatLonV (Fin 0) (Fin 0) (Some PInf)) (LatLonV (Fin 0) (Fin 0) None))"
proof -
  have h: "non_finite PInf" by (simp add: non_finite_def)
  from h non_finite_input_propagates [OF h, of "Fin 0" None "Fin 0" "LatLonV (Fin 0) (Fin 0) None"
      "NumV (Fin 0)" "LatLonV (Fin 0) (Fin 0) None"]
  show ?thesis by simp
qed

subsection \<open>C9: the arguments after a call\<close>


subsection \<open>C10: the radius of a returned point\<close>

text \<open>
  C10: whatever the radius of the input points, the point returned by \<open>midpointTo\<close>,
  \<open>destinationPoint\<close> and \<open>intersection\<close> has the default radius 6371, since
  \<open>toLatLon\<close> calls the constructor without a radius.
\<close>

theorem lifted_point_has_default_radius:
  "radius (midpointTo p q) = Fin 6371 \<and>
   radius (destinationPoint p b d) = Fin 6371 \<and>
   (\<exists>pt. intersection p v q w = Inr pt \<and> radius pt = Fin 6371)"
  by (simp add: midpointTo_def destinationPoint_def intersection_Inr radius_toLatLon Let_def)

end
